theory Spec2Isabelle
  imports Main
begin

section \<open>JavaScript strings\<close>

text \<open>
  A JavaScript string is a sequence of UTF-16 code units. A code unit is modelled as a
  natural number (the code units are the numbers below 65536; no function below depends
  on the bound). \<open>ascii\<close> writes a string constant of the source.
\<close>

type_synonym jstring = "nat list"

definition ascii :: "string \<Rightarrow> jstring" where
  "ascii s = map of_char s"

text \<open>
  The code units that \<open>String.prototype.trim\<close> strips: the WhiteSpace and
  LineTerminator productions of ECMAScript (TAB, LF, VT, FF, CR, SP, NBSP, U+1680,
  U+2000 to U+200A, LS, PS, U+202F, U+205F, U+3000 and the byte order mark).
\<close>

definition isWhiteSpace :: "nat \<Rightarrow> bool" where
  "isWhiteSpace c \<longleftrightarrow>
     c = 9 \<or> c = 10 \<or> c = 11 \<or> c = 12 \<or> c = 13 \<or> c = 32 \<or> c = 160 \<or> c = 5760 \<or>
     (8192 \<le> c \<and> c \<le> 8202) \<or> c = 8232 \<or> c = 8233 \<or> c = 8239 \<or> c = 8287 \<or>
     c = 12288 \<or> c = 65279"

definition trim :: "jstring \<Rightarrow> jstring" where
  "trim s = rev (dropWhile isWhiteSpace (rev (dropWhile isWhiteSpace s)))"

definition startsWith :: "jstring \<Rightarrow> jstring \<Rightarrow> bool" where
  "startsWith s p \<longleftrightarrow> take (length p) s = p"

definition endsWith :: "jstring \<Rightarrow> jstring \<Rightarrow> bool" where
  "endsWith s p \<longleftrightarrow> length p \<le> length s \<and> drop (length s - length p) s = p"

text \<open>\<open>s.includes(p)\<close>: \<open>p\<close> occurs in \<open>s\<close> as a contiguous run.\<close>

fun includes_str :: "jstring \<Rightarrow> jstring \<Rightarrow> bool" where
  "includes_str [] p = (p = [])"
| "includes_str (c # cs) p = (startsWith (c # cs) p \<or> includes_str cs p)"

text \<open>\<open>s.split('\n')\<close>: the pieces between the line feeds, empty pieces included.\<close>

fun split_newline :: "jstring \<Rightarrow> jstring list" where
  "split_newline [] = [[]]"
| "split_newline (c # cs) =
     (if c = 10 then [] # split_newline cs
      else (case split_newline cs of
              [] \<Rightarrow> [[c]]
            | l # ls \<Rightarrow> (c # l) # ls))"

text \<open>\<open>parts.join(sep)\<close>.\<close>

fun join :: "jstring \<Rightarrow> jstring list \<Rightarrow> jstring" where
  "join sep [] = []"
| "join sep [p] = p"
| "join sep (p # q # ps) = p @ sep @ join sep (q # ps)"



text \<open>
  An optional string argument (\<open>x?: string\<close>) is \<open>None\<close> when it is \<open>undefined\<close>;
  it is falsy when it is \<open>undefined\<close> or empty. \<open>x || d\<close> is \<open>or_default x d\<close>.
\<close>

definition falsy :: "jstring option \<Rightarrow> bool" where
  "falsy x \<longleftrightarrow> (case x of None \<Rightarrow> True | Some s \<Rightarrow> s = [])"

definition or_default :: "jstring option \<Rightarrow> jstring \<Rightarrow> jstring" where
  "or_default x d = (case x of None \<Rightarrow> d | Some s \<Rightarrow> if s = [] then d else s)"

section \<open>JavaScript values and errors\<close>

text \<open>
  The values that \<open>JSON.parse\<close> builds, and \<open>undefined\<close>, which a property read
  yields for a missing property. A number is kept as its lexeme: its value is an IEEE
  double, which is not modelled. The members of an object are in source order; a later
  member of the same name overrides an earlier one.
\<close>

datatype jsval =
    JUndefined
  | JNull
  | JBool bool
  | JNum jstring
  | JStr jstring
  | JArr "jsval list"
  | JObj "(jstring \<times> jsval) list"

text \<open>
  What the code throws or receives as a rejection: \<open>Error m\<close> is \<open>new Error(...)\<close>
  of the source, \<open>m\<close> being the fixed part of its message; \<open>TypeError\<close> is the
  runtime's error on a property read of \<open>null\<close> or \<open>undefined\<close> or on a call of
  something that is not a function; \<open>Rejected m\<close> is a failure of the file system, of
  the network or of a backend, an Error object with the message \<open>m\<close>; \<open>Thrown v\<close> is
  a rejection with a value that is no Error object: \<open>null\<close>, \<open>undefined\<close> or plain
  data.
\<close>

datatype error = Error jstring | TypeError | Rejected jstring | Thrown jsval

definition nullish :: "jsval \<Rightarrow> bool" where
  "nullish v \<longleftrightarrow> v = JUndefined \<or> v = JNull"

definition own_property :: "(jstring \<times> jsval) list \<Rightarrow> jstring \<Rightarrow> jsval" where
  "own_property ms name = (case map_of (rev ms) name of None \<Rightarrow> JUndefined | Some v \<Rightarrow> v)"

text \<open>
  \<open>v.name\<close> on a value that is neither \<open>null\<close> nor \<open>undefined\<close>, for the names
  the source reads (\<open>choices\<close>, \<open>delta\<close>, \<open>content\<close>, \<open>text\<close>, and on a caught
  value \<open>message\<close>, \<open>code\<close>, \<open>statusCode\<close>): none of them is a property of a
  built-in prototype, so only an object's own member answers.
\<close>

definition property :: "jsval \<Rightarrow> jstring \<Rightarrow> jsval" where
  "property v name = (case v of JObj ms \<Rightarrow> own_property ms name | _ \<Rightarrow> JUndefined)"

text \<open>\<open>v.name\<close>: a TypeError on \<open>null\<close> and \<open>undefined\<close>.\<close>

definition js_get :: "jsval \<Rightarrow> jstring \<Rightarrow> error + jsval" where
  "js_get v name = (if nullish v then Inl TypeError else Inr (property v name))"

text \<open>
  A \<open>catch (error)\<close> that throws \<open>new Error(...)\<close> with \<open>error.message\<close> (or
  \<open>error.response\<close>) in its message: the read is itself a TypeError when what was
  caught is \<open>null\<close> or \<open>undefined\<close>.
\<close>

definition rethrow :: "jstring \<Rightarrow> error \<Rightarrow> error" where
  "rethrow m e = (case e of Thrown v \<Rightarrow> if nullish v then TypeError else Error m | _ \<Rightarrow> Error m)"

text \<open>\<open>v?.name\<close> and \<open>v?.[0]\<close>: \<open>undefined\<close> on \<open>null\<close> and \<open>undefined\<close>.\<close>

definition opt_get :: "jsval \<Rightarrow> jstring \<Rightarrow> jsval" where
  "opt_get v name = (if nullish v then JUndefined else property v name)"

definition opt_index0 :: "jsval \<Rightarrow> jsval" where
  "opt_index0 v =
     (case v of
        JArr xs \<Rightarrow> (case xs of [] \<Rightarrow> JUndefined | x # _ \<Rightarrow> x)
      | JStr s \<Rightarrow> (case s of [] \<Rightarrow> JUndefined | c # _ \<Rightarrow> JStr [c])
      | JObj ms \<Rightarrow> own_property ms (ascii ''0'')
      | _ \<Rightarrow> JUndefined)"

text \<open>
  Truthiness and string conversion. Both depend on the double a number lexeme denotes;
  \<open>nt\<close> is the parameter that gives the text \<open>String(n)\<close> of a number lexeme. \<open>+0\<close>
  and \<open>-0\<close> are the numbers that print as \<open>0\<close>, and the only falsy numbers JSON can
  denote. Where a theorem below runs the code on a concrete input, \<open>nt\<close> is \<open>id\<close>: no
  number is converted there.
\<close>

definition truthy :: "(jstring \<Rightarrow> jstring) \<Rightarrow> jsval \<Rightarrow> bool" where
  "truthy nt v =
     (case v of
        JUndefined \<Rightarrow> False
      | JNull \<Rightarrow> False
      | JBool b \<Rightarrow> b
      | JNum l \<Rightarrow> nt l \<noteq> ascii ''0''
      | JStr s \<Rightarrow> s \<noteq> []
      | JArr _ \<Rightarrow> True
      | JObj _ \<Rightarrow> True)"

text \<open>
  The string a value becomes in \<open>text + v\<close>; \<open>None\<close> is the TypeError of the
  conversion. An object converts through \<open>Object.prototype.toString\<close>, unless it has
  a member of its own named \<open>toString\<close>: that member, a JSON value, is not callable,
  \<open>valueOf\<close> returns the object itself, and the conversion throws. An array converts
  through \<open>join\<close>, which converts each element that is neither \<open>null\<close> nor
  \<open>undefined\<close>.
\<close>

fun to_string :: "(jstring \<Rightarrow> jstring) \<Rightarrow> jsval \<Rightarrow> jstring option" where
  "to_string nt JUndefined = Some (ascii ''undefined'')"
| "to_string nt JNull = Some (ascii ''null'')"
| "to_string nt (JBool b) = Some (if b then ascii ''true'' else ascii ''false'')"
| "to_string nt (JNum l) = Some (nt l)"
| "to_string nt (JStr s) = Some s"
| "to_string nt (JArr xs) =
     map_option (join (ascii '',''))
       (those (map (\<lambda>x. if x = JUndefined \<or> x = JNull then Some [] else to_string nt x) xs))"
| "to_string nt (JObj ms) =
     (if ascii ''toString'' \<in> fst ` set ms then None else Some (ascii ''[object Object]''))"

section \<open>JSON.parse\<close>

text \<open>
  \<open>JSON.parse\<close> is the platform's; it is modelled from the JSON grammar (ECMA-404) as a
  pushdown recogniser that reads the text one code unit at a time and builds the value.
  The stack holds the containers that are open: an array with the elements read so far,
  an object with the members read so far, and above an object the key whose value is
  being read. \<open>Literal l n\<close> is the mode after the first \<open>n\<close> code units of the
  literal \<open>l\<close>.
\<close>

datatype frame =
    FArr "jsval list"
  | FObj "(jstring \<times> jsval) list"
  | FKey jstring

datatype num_phase = NMinus | NZero | NInt | NDot | NFrac | NE | NESign | NExp

datatype literal = LTrue | LFalse | LNull

fun lit_text :: "literal \<Rightarrow> jstring" where
  "lit_text LTrue = ascii ''true''"
| "lit_text LFalse = ascii ''false''"
| "lit_text LNull = ascii ''null''"

fun lit_value :: "literal \<Rightarrow> jsval" where
  "lit_value LTrue = JBool True"
| "lit_value LFalse = JBool False"
| "lit_value LNull = JNull"

datatype mode =
    Value
  | FirstElement
  | FirstKey
  | Key
  | Colon
  | InString bool jstring
  | Escape bool jstring
  | Unicode bool jstring "nat list"
  | InNumber num_phase jstring
  | Literal literal nat
  | AfterValue
  | Finished jsval

type_synonym pstate = "mode \<times> frame list"

definition json_ws :: "nat \<Rightarrow> bool" where
  "json_ws c \<longleftrightarrow> c = 32 \<or> c = 9 \<or> c = 10 \<or> c = 13"

definition is_digit :: "nat \<Rightarrow> bool" where
  "is_digit c \<longleftrightarrow> 48 \<le> c \<and> c \<le> 57"

definition hex_digit :: "nat \<Rightarrow> nat option" where
  "hex_digit c =
     (if 48 \<le> c \<and> c \<le> 57 then Some (c - 48)
      else if 97 \<le> c \<and> c \<le> 102 then Some (c - 87)
      else if 65 \<le> c \<and> c \<le> 70 then Some (c - 55)
      else None)"

definition escape_char :: "nat \<Rightarrow> nat option" where
  "escape_char c =
     (if c = 34 then Some 34
      else if c = 92 then Some 92
      else if c = 47 then Some 47
      else if c = 98 then Some 8
      else if c = 102 then Some 12
      else if c = 110 then Some 10
      else if c = 114 then Some 13
      else if c = 116 then Some 9
      else None)"

text \<open>The next phase of a number on one more code unit, if it continues the number.\<close>

definition num_next :: "num_phase \<Rightarrow> nat \<Rightarrow> num_phase option" where
  "num_next ph c =
     (case ph of
        NMinus \<Rightarrow> (if c = 48 then Some NZero else if is_digit c then Some NInt else None)
      | NZero \<Rightarrow> (if c = 46 then Some NDot else if c = 101 \<or> c = 69 then Some NE else None)
      | NInt \<Rightarrow> (if is_digit c then Some NInt else if c = 46 then Some NDot
                  else if c = 101 \<or> c = 69 then Some NE else None)
      | NDot \<Rightarrow> (if is_digit c then Some NFrac else None)
      | NFrac \<Rightarrow> (if is_digit c then Some NFrac else if c = 101 \<or> c = 69 then Some NE else None)
      | NE \<Rightarrow> (if c = 43 \<or> c = 45 then Some NESign else if is_digit c then Some NExp else None)
      | NESign \<Rightarrow> (if is_digit c then Some NExp else None)
      | NExp \<Rightarrow> (if is_digit c then Some NExp else None))"

definition num_final :: "num_phase \<Rightarrow> bool" where
  "num_final ph \<longleftrightarrow> ph = NZero \<or> ph = NInt \<or> ph = NFrac \<or> ph = NExp"

text \<open>A value is complete: it is the result, an element, or the value of a member.\<close>

fun complete :: "jsval \<Rightarrow> frame list \<Rightarrow> pstate option" where
  "complete v [] = Some (Finished v, [])"
| "complete v (FArr xs # st) = Some (AfterValue, FArr (xs @ [v]) # st)"
| "complete v (FKey k # FObj ms # st) = Some (AfterValue, FObj (ms @ [(k, v)]) # st)"
| "complete v _ = None"

definition start_value :: "nat \<Rightarrow> frame list \<Rightarrow> pstate option" where
  "start_value c st =
     (if c = 34 then Some (InString False [], st)
      else if c = 91 then Some (FirstElement, FArr [] # st)
      else if c = 123 then Some (FirstKey, FObj [] # st)
      else if c = 45 then Some (InNumber NMinus [c], st)
      else if c = 48 then Some (InNumber NZero [c], st)
      else if is_digit c then Some (InNumber NInt [c], st)
      else if c = 116 then Some (Literal LTrue 1, st)
      else if c = 102 then Some (Literal LFalse 1, st)
      else if c = 110 then Some (Literal LNull 1, st)
      else None)"

fun after_value :: "pstate \<Rightarrow> nat \<Rightarrow> pstate option" where
  "after_value (Finished v, st) c = (if json_ws c then Some (Finished v, st) else None)"
| "after_value (AfterValue, st) c =
     (if json_ws c then Some (AfterValue, st)
      else (case st of
              FArr xs # st' \<Rightarrow>
                (if c = 44 then Some (Value, st)
                 else if c = 93 then complete (JArr xs) st' else None)
            | FObj ms # st' \<Rightarrow>
                (if c = 44 then Some (Key, st)
                 else if c = 125 then complete (JObj ms) st' else None)
            | _ \<Rightarrow> None))"
| "after_value _ c = None"

fun step :: "pstate \<Rightarrow> nat \<Rightarrow> pstate option" where
  "step (Value, st) c = (if json_ws c then Some (Value, st) else start_value c st)"
| "step (FirstElement, st) c =
     (if json_ws c then Some (FirstElement, st)
      else if c = 93 then (case st of FArr xs # st' \<Rightarrow> complete (JArr xs) st' | _ \<Rightarrow> None)
      else start_value c st)"
| "step (FirstKey, st) c =
     (if json_ws c then Some (FirstKey, st)
      else if c = 125 then (case st of FObj ms # st' \<Rightarrow> complete (JObj ms) st' | _ \<Rightarrow> None)
      else if c = 34 then Some (InString True [], st)
      else None)"
| "step (Key, st) c =
     (if json_ws c then Some (Key, st)
      else if c = 34 then Some (InString True [], st)
      else None)"
| "step (Colon, st) c =
     (if json_ws c then Some (Colon, st)
      else if c = 58 then Some (Value, st)
      else None)"
| "step (InString k buf, st) c =
     (if c = 34 then (if k then Some (Colon, FKey buf # st) else complete (JStr buf) st)
      else if c = 92 then Some (Escape k buf, st)
      else if c < 32 then None
      else Some (InString k (buf @ [c]), st))"
| "step (Escape k buf, st) c =
     (if c = 117 then Some (Unicode k buf [], st)
      else (case escape_char c of
              None \<Rightarrow> None
            | Some e \<Rightarrow> Some (InString k (buf @ [e]), st)))"
| "step (Unicode k buf hs, st) c =
     (case hex_digit c of
        None \<Rightarrow> None
      | Some h \<Rightarrow>
          (if length hs = 3
           then Some (InString k (buf @ [foldl (\<lambda>a d. 16 * a + d) 0 (hs @ [h])]), st)
           else Some (Unicode k buf (hs @ [h]), st)))"
| "step (InNumber ph buf, st) c =
     (case num_next ph c of
        Some ph' \<Rightarrow> Some (InNumber ph' (buf @ [c]), st)
      | None \<Rightarrow>
          (if num_final ph
           then (case complete (JNum buf) st of None \<Rightarrow> None | Some q \<Rightarrow> after_value q c)
           else None))"
| "step (Literal l n, st) c =
     (if n < length (lit_text l) \<and> c = lit_text l ! n
      then (if Suc n = length (lit_text l) then complete (lit_value l) st
            else Some (Literal l (Suc n), st))
      else None)"
| "step (AfterValue, st) c = after_value (AfterValue, st) c"
| "step (Finished v, st) c = after_value (Finished v, st) c"

fun run :: "pstate \<Rightarrow> jstring \<Rightarrow> pstate option" where
  "run q [] = Some q"
| "run q (c # cs) = (case step q c of None \<Rightarrow> None | Some q' \<Rightarrow> run q' cs)"

text \<open>At the end of the text: a value has been read, or a number ends with the text.\<close>

fun finish :: "pstate \<Rightarrow> jsval option" where
  "finish (Finished v, st) = Some v"
| "finish (InNumber ph buf, []) = (if num_final ph then Some (JNum buf) else None)"
| "finish _ = None"

text \<open>\<open>JSON.parse(text)\<close>: \<open>None\<close> is the SyntaxError.\<close>

definition JSON_parse :: "jstring \<Rightarrow> jsval option" where
  "JSON_parse s = (case run (Value, []) s of None \<Rightarrow> None | Some q \<Rightarrow> finish q)"

section \<open>The cloud chat-completion client: callOpenAI\<close>

text \<open>
  The state of the read loop: the text accumulated in \<open>fullContent\<close>, and the
  arguments of the calls of \<open>onChunk\<close>, in order (the calls made when the caller
  supplied the callback).
\<close>

record stream_state =
  fullContent :: jstring
  onChunk_calls :: "jsval list"

text \<open>\<open>parsed.choices?.[0]?.delta?.content\<close>.\<close>

definition delta_content :: "jsval \<Rightarrow> error + jsval" where
  "delta_content parsed =
     (case js_get parsed (ascii ''choices'') of
        Inl e \<Rightarrow> Inl e
      | Inr choices \<Rightarrow>
          Inr (opt_get (opt_get (opt_index0 choices) (ascii ''delta'')) (ascii ''content'')))"

text \<open>
  The body of \<open>for (const line of lines)\<close>. The \<open>[DONE]\<close> line is passed over with
  \<open>continue\<close>; a SyntaxError of \<open>JSON.parse\<close>, a TypeError of the property read
  and a TypeError of the string conversion in \<open>fullContent += content\<close> are caught by
  the inner \<open>try\<close>, which leaves the state as it is. The callback is taken to return.
\<close>

definition decode_line :: "(jstring \<Rightarrow> jstring) \<Rightarrow> stream_state \<Rightarrow> jstring \<Rightarrow> stream_state" where
  "decode_line nt st line =
     (if startsWith line (ascii ''data: '') then
        (let data = drop 6 line in
         if data = ascii ''[DONE]'' then st
         else (case JSON_parse data of
                 None \<Rightarrow> st
               | Some parsed \<Rightarrow>
                   (case delta_content parsed of
                      Inl e \<Rightarrow> st
                    | Inr content \<Rightarrow>
                        if truthy nt content
                        then (case to_string nt content of
                                None \<Rightarrow> st
                              | Some added \<Rightarrow>
                                  st\<lparr>fullContent := fullContent st @ added,
                                      onChunk_calls := onChunk_calls st @ [content]\<rparr>)
                        else st)))
      else st)"

text \<open>
  One read of the body. \<open>chunk\<close> is the text the streaming TextDecoder gives for the
  bytes of the read (a multi-byte character cut by the read boundary goes to the next
  read whole).
\<close>

definition decode_chunk :: "(jstring \<Rightarrow> jstring) \<Rightarrow> stream_state \<Rightarrow> jstring \<Rightarrow> stream_state" where
  "decode_chunk nt st chunk =
     foldl (decode_line nt) st (filter (\<lambda>line. trim line \<noteq> []) (split_newline chunk))"

text \<open>The loop \<open>while (true)\<close> over the reads of a body that ends.\<close>

definition decode_body :: "(jstring \<Rightarrow> jstring) \<Rightarrow> jstring list \<Rightarrow> stream_state" where
  "decode_body nt chunks =
     foldl (decode_chunk nt) \<lparr>fullContent = [], onChunk_calls = []\<rparr> chunks"

text \<open>
  The response of \<open>fetch\<close>: \<open>body\<close> is the list of the reads of the body's reader
  (\<open>None\<close> when the response has no body), \<open>read_error\<close> a rejection of the read
  that follows them.
\<close>

record http_response =
  ok :: bool
  body :: "jstring list option"
  read_error :: "error option"

text \<open>
  \<open>callOpenAI\<close>, given the outcome of its \<open>fetch\<close>: the calls of \<open>onChunk\<close> it
  made, and the text it returns or the error it throws. The outer \<open>catch\<close> rethrows
  what it caught as \<open>Failed to connect to OpenAI\<close>.
\<close>

definition callOpenAI :: "(jstring \<Rightarrow> jstring) \<Rightarrow> error + http_response \<Rightarrow> jsval list \<times> (error + jstring)" where
  "callOpenAI nt fetched =
     (case fetched of
        Inl e \<Rightarrow> ([], Inl (rethrow (ascii ''Failed to connect to OpenAI'') e))
      | Inr response \<Rightarrow>
          if \<not> ok response then ([], Inl (Error (ascii ''Failed to connect to OpenAI'')))
          else (case body response of
                  None \<Rightarrow> ([], Inr [])
                | Some chunks \<Rightarrow>
                    (let st = decode_body nt chunks in
                     (onChunk_calls st,
                      case read_error response of
                        None \<Rightarrow> Inr (fullContent st)
                      | Some e \<Rightarrow> Inl (rethrow (ascii ''Failed to connect to OpenAI'') e)))))"

text \<open>
  Where the reads of a body cut it. \<open>last_line c\<close> is the text of the read \<open>c\<close> after
  its last line feed, \<open>first_line r\<close> the text of the rest \<open>r\<close> of the body before
  its first line feed: the two pieces of the line that the boundary between \<open>c\<close> and
  \<open>r\<close> cuts. The boundary is no cut of a data line when one of the pieces is empty (the
  boundary is at a line feed, or at an end of the body), or when neither the line nor
  its piece after the boundary starts with \<open>data: \<close> (the boundary is not inside a data
  line and not directly before \<open>data: \<close>).
\<close>

definition data_line :: "jstring \<Rightarrow> bool" where
  "data_line line \<longleftrightarrow> startsWith line (ascii ''data: '')"

definition last_line :: "jstring \<Rightarrow> jstring" where
  "last_line c = rev (takeWhile (\<lambda>u. u \<noteq> 10) (rev c))"

definition first_line :: "jstring \<Rightarrow> jstring" where
  "first_line r = takeWhile (\<lambda>u. u \<noteq> 10) r"

definition cut_ok :: "jstring \<Rightarrow> jstring \<Rightarrow> bool" where
  "cut_ok c r \<longleftrightarrow>
     last_line c = [] \<or> first_line r = [] \<or>
     (\<not> data_line (last_line c @ first_line r) \<and> \<not> data_line (first_line r))"

fun no_data_line_cut :: "jstring list \<Rightarrow> bool" where
  "no_data_line_cut [] = True"
| "no_data_line_cut (c # cs) = (cut_ok c (concat cs) \<and> no_data_line_cut cs)"

section \<open>cleanJsonResponse\<close>

text \<open>
  \<open>text.replace(/^```(?:json)?\n/, '')\<close>: without the \<open>m\<close> flag \<open>^\<close> is the start of
  the text only, and without the \<open>g\<close> flag one match is replaced.
\<close>

definition strip_opening_fence :: "jstring \<Rightarrow> jstring" where
  "strip_opening_fence text =
     (if startsWith text (ascii ''```json\<newline>'') then drop 8 text
      else if startsWith text (ascii ''```\<newline>'') then drop 4 text
      else text)"

text \<open>\<open>text.replace(/\n```$/, '')\<close>: \<open>$\<close> is the end of the text only.\<close>

definition strip_closing_fence :: "jstring \<Rightarrow> jstring" where
  "strip_closing_fence text =
     (if endsWith text (ascii ''\<newline>```'') then take (length text - 4) text else text)"

definition cleanJsonResponse :: "jstring \<Rightarrow> jstring" where
  "cleanJsonResponse text = trim (strip_closing_fence (strip_opening_fence text))"

section \<open>The provider state of LLMHelper\<close>

text \<open>
  The fields of the class. \<open>model\<close> is the Gemini model handle or \<open>null\<close>; a handle is
  represented by the API key it was made from.
\<close>

record LLMHelper =
  model :: "jstring option"
  useOllama :: bool
  useOpenAI :: bool
  ollamaModel :: jstring
  ollamaUrl :: jstring
  openaiApiKey :: jstring
  openaiModel :: jstring

datatype provider = Ollama | Gemini | OpenAI

text \<open>The field initialisers.\<close>

definition initial :: LLMHelper where
  "initial =
     \<lparr>model = None, useOllama = False, useOpenAI = False,
      ollamaModel = ascii ''llama3.2'', ollamaUrl = ascii ''http://localhost:11434'',
      openaiApiKey = [], openaiModel = ascii ''gpt-4o''\<rparr>"

text \<open>
  The local inference server: \<open>tags url\<close> is the list of model names that
  \<open>GET url/api/tags\<close> yields (\<open>None\<close> when the request fails, is not answered with
  2xx, or its body is not JSON), \<open>generate url model prompt\<close> the outcome of
  \<open>POST url/api/generate\<close>.
\<close>

record ollama_server =
  tags :: "jstring \<Rightarrow> jstring list option"
  generate :: "jstring \<Rightarrow> jstring \<Rightarrow> jstring \<Rightarrow> error + jstring"

definition getOllamaModels :: "ollama_server \<Rightarrow> LLMHelper \<Rightarrow> jstring list" where
  "getOllamaModels server this =
     (if \<not> useOllama this then []
      else (case tags server (ollamaUrl this) of None \<Rightarrow> [] | Some names \<Rightarrow> names))"

definition callOllama :: "ollama_server \<Rightarrow> LLMHelper \<Rightarrow> jstring \<Rightarrow> error + jstring" where
  "callOllama server this prompt =
     (case generate server (ollamaUrl this) (ollamaModel this) prompt of
        Inl e \<Rightarrow> Inl (rethrow (ascii ''Failed to connect to Ollama'') e)
      | Inr response \<Rightarrow> Inr response)"

definition initializeOllamaModel :: "ollama_server \<Rightarrow> LLMHelper \<Rightarrow> LLMHelper" where
  "initializeOllamaModel server this =
     (case getOllamaModels server this of
        [] \<Rightarrow> this
      | first # others \<Rightarrow>
          (let this1 = (if ollamaModel this \<in> set (first # others) then this
                        else this\<lparr>ollamaModel := first\<rparr>)
           in case callOllama server this1 (ascii ''Hello'') of
                Inr testResult \<Rightarrow> this1
              | Inl e \<Rightarrow>
                  (case getOllamaModels server this1 of
                     [] \<Rightarrow> this1
                   | m # ms \<Rightarrow> this1\<lparr>ollamaModel := m\<rparr>)))"

text \<open>
  The constructor, up to its return. In Ollama mode it starts \<open>initializeOllamaModel\<close>
  without awaiting it: the probe is a later step on the state constructed here.
\<close>

definition constructor ::
  "jstring option \<Rightarrow> bool \<Rightarrow> jstring option \<Rightarrow> jstring option \<Rightarrow> bool \<Rightarrow> jstring option
     \<Rightarrow> error + LLMHelper" where
  "constructor apiKey useOllama' ollamaModel' ollamaUrl' useOpenAI' openaiModel' =
     (let this = initial\<lparr>useOllama := useOllama', useOpenAI := useOpenAI'\<rparr> in
      if useOpenAI' then
        (let this = this\<lparr>openaiApiKey := or_default apiKey [],
                          openaiModel := or_default openaiModel' (ascii ''gpt-4o'')\<rparr>
         in if openaiApiKey this = []
            then Inl (Error (ascii ''OpenAI API key is required when useOpenAI is true''))
            else Inr this)
      else if useOllama' then
        Inr (this\<lparr>ollamaUrl := or_default ollamaUrl' (ascii ''http://localhost:11434''),
                  ollamaModel := or_default ollamaModel' (ascii ''gemma:latest'')\<rparr>)
      else if \<not> falsy apiKey then Inr (this\<lparr>model := apiKey\<rparr>)
      else Inl (Error (ascii ''Either provide Gemini API key or enable Ollama mode'')))"

definition getCurrentProvider :: "LLMHelper \<Rightarrow> provider" where
  "getCurrentProvider this =
     (if useOpenAI this then OpenAI else if useOllama this then Ollama else Gemini)"

definition getCurrentModel :: "LLMHelper \<Rightarrow> jstring" where
  "getCurrentModel this =
     (if useOpenAI this then openaiModel this
      else if useOllama this then ollamaModel this else ascii ''gemini-2.0-flash'')"

definition switchToOllama ::
  "ollama_server \<Rightarrow> LLMHelper \<Rightarrow> jstring option \<Rightarrow> jstring option \<Rightarrow> LLMHelper" where
  "switchToOllama server this model' url =
     (let this1 = this\<lparr>useOllama := True\<rparr>;
          this2 = (case url of
                     None \<Rightarrow> this1
                   | Some u \<Rightarrow> if u = [] then this1 else this1\<lparr>ollamaUrl := u\<rparr>)
      in case model' of
           None \<Rightarrow> initializeOllamaModel server this2
         | Some m \<Rightarrow> if m = [] then initializeOllamaModel server this2
                     else this2\<lparr>ollamaModel := m\<rparr>)"

definition switchToGemini :: "LLMHelper \<Rightarrow> jstring option \<Rightarrow> error + LLMHelper" where
  "switchToGemini this apiKey =
     (let this1 = (if falsy apiKey then this else this\<lparr>model := apiKey\<rparr>) in
      if model this1 = None \<and> falsy apiKey
      then Inl (Error (ascii ''No Gemini API key provided and no existing model instance''))
      else Inr (this1\<lparr>useOllama := False, useOpenAI := False\<rparr>))"

definition switchToOpenAI :: "LLMHelper \<Rightarrow> jstring \<Rightarrow> jstring option \<Rightarrow> LLMHelper" where
  "switchToOpenAI this apiKey model' =
     this\<lparr>openaiApiKey := apiKey,
          openaiModel := or_default model' (ascii ''gpt-4o''),
          useOpenAI := True,
          useOllama := False\<rparr>"

section \<open>The world outside the class\<close>

text \<open>
  Files are byte sequences found by their path. \<open>readFile\<close> fails on a missing file.
  \<open>writeFile\<close> opens the file with the flag \<open>w\<close>, which creates or empties it, and
  then writes: it completes, or it fails at the open and leaves the disk as it was, or
  it fails at the write and leaves the file behind with what was written of the data.
  \<open>unlink\<close> fails on a file that does not exist, and on one that exists it removes it
  or is refused and leaves it.
\<close>

type_synonym bytes = "nat list"

datatype write_outcome = Written | OpenFailed error | WriteFailed error bytes

type_synonym disk = "jstring \<Rightarrow> bytes option"

text \<open>
  A chat message is a role and a content; a content is a text or a list of parts, an
  image part being the bytes sent as a \<open>data:image/png;base64,\<close> URL.
\<close>

datatype part = TextPart jstring | ImagePart bytes

datatype content = Text jstring | Parts "part list"

type_synonym message = "jstring \<times> content"

text \<open>
  What the search backend A answers, as \<open>fetchWeaviateContext\<close> reads it. An object
  gives the text of \<open>obj._additional?.distance?.toFixed(4)\<close> and, for each of the
  other fields, the text of its value, \<open>None\<close> when the field is absent or falsy.
  \<open>NoResults\<close>: the result list is absent, falsy or of length 0. \<open>Unreadable\<close>: reading
  the reply throws a TypeError (the result list is not an array, an element is \<open>null\<close>,
  a distance is not a number).
\<close>

record weaviate_object =
  w_distance :: jstring
  w_name :: "jstring option"
  w_category :: "jstring option"
  w_supplierId :: "jstring option"
  w_annualSpend :: "jstring option"
  w_content :: "jstring option"

datatype weaviate_results = NoResults | Results "weaviate_object list" | Unreadable

text \<open>
  What the search backend B answers, as \<open>fetchKontextContext\<close> reads it:
  \<open>answer_text\<close> is \<open>vaultResult.answer?.text\<close>; a hit gives the texts of
  \<open>attributes.text\<close>, \<open>attributes.content\<close>, \<open>attributes.snippet\<close> and
  \<open>attributes.fileName\<close>, the text of \<open>JSON.stringify(hit.attributes)\<close>, and the text
  of \<open>(hit.score * 100).toFixed(1)\<close> when the score is truthy. \<open>UnreadableHits\<close>:
  reading the hits throws a TypeError.
\<close>

record kontext_hit =
  h_text :: "jstring option"
  h_content :: "jstring option"
  h_snippet :: "jstring option"
  h_attributes_json :: jstring
  h_fileName :: "jstring option"
  h_relevance :: "jstring option"

datatype kontext_hits = NoHits | Hits "kontext_hit list" | UnreadableHits

record vault_result =
  answer_text :: "jstring option"
  hits :: kontext_hits

text \<open>
  The environment variables, the clock, and the outcomes of the calls that leave the
  process: the write and the unlink of a file, the decoding of base64 text, the Gemini SDK
  (\<open>generateContent\<close> of the handle of a key, on a prompt and inline media), the chat
  completion and transcription endpoints (by API key), and the two search backends.
\<close>

record world =
  env :: "jstring \<Rightarrow> jstring option"
  now :: nat
  writeFile_outcome :: "jstring \<Rightarrow> write_outcome"
  unlink_error :: "jstring \<Rightarrow> error option"
  base64_decode :: "jstring \<Rightarrow> bytes"
  generateContent :: "jstring \<Rightarrow> jstring \<Rightarrow> (bytes \<times> jstring) list \<Rightarrow> error + jstring"
  chat_completions :: "jstring \<Rightarrow> jstring \<Rightarrow> message list \<Rightarrow> error + http_response"
  transcriptions :: "jstring \<Rightarrow> bytes \<Rightarrow> error + jsval"
  weaviate_graphql ::
    "jstring \<Rightarrow> jstring \<Rightarrow> jstring \<Rightarrow> jstring \<Rightarrow> jstring \<Rightarrow> error + weaviate_results"
  kontext_vault_query :: "jstring \<Rightarrow> jstring option \<Rightarrow> jstring \<Rightarrow> error + vault_result"

definition readFile :: "disk \<Rightarrow> jstring \<Rightarrow> error + bytes" where
  "readFile d path = (case d path of None \<Rightarrow> Inl (Rejected (ascii ''ENOENT'')) | Some b \<Rightarrow> Inr b)"



definition systemPrompt :: jstring where
  "systemPrompt = ascii (''Procurement Negotiation Assistant. Expert in supplier negotiations, contracts, pricing, TCO.\<newline>'' @
     ''Focus: Fast, data-driven, tactical advice.\<newline>'' @
     ''Format: Concise bullet points. One-line actions.\<newline>'' @
     ''Scope: Procurement/supply-chain ONLY.'')"

section \<open>The transcription adapter\<close>

text \<open>
  \<open>transcribeAudioWithWhisper\<close>: the file is posted to the transcription endpoint and
  \<open>response.data.text || ''\<close> is returned; every failure inside the \<open>try\<close> is
  rethrown as \<open>Failed to transcribe audio\<close>.
\<close>

definition transcribeAudioWithWhisper ::
  "(jstring \<Rightarrow> jstring) \<Rightarrow> world \<Rightarrow> disk \<Rightarrow> LLMHelper \<Rightarrow> jstring \<Rightarrow> error + jsval" where
  "transcribeAudioWithWhisper nt w d this audioPath =
     (case readFile d audioPath of
        Inl e \<Rightarrow> Inl (rethrow (ascii ''Failed to transcribe audio'') e)
      | Inr audio \<Rightarrow>
          (case transcriptions w (openaiApiKey this) audio of
             Inl e \<Rightarrow> Inl (rethrow (ascii ''Failed to transcribe audio'') e)
           | Inr data \<Rightarrow>
               (case js_get data (ascii ''text'') of
                  Inl e \<Rightarrow> Inl (rethrow (ascii ''Failed to transcribe audio'') e)
                | Inr t \<Rightarrow> Inr (if truthy nt t then t else JStr []))))"



section \<open>analyzeImageFile\<close>

text \<open>
  The result is the text and the timestamp. The branch is chosen by \<open>useOpenAI\<close>
  alone; in the \<open>else\<close> branch the file is read first and \<open>this.model.generateContent\<close>
  is then called, a TypeError when \<open>this.model\<close> is \<open>null\<close>. The \<open>catch\<close> rethrows
  the error it caught.
\<close>

definition analyzeImageFile ::
  "(jstring \<Rightarrow> jstring) \<Rightarrow> world \<Rightarrow> disk \<Rightarrow> LLMHelper \<Rightarrow> jstring \<Rightarrow> error + jstring \<times> nat" where
  "analyzeImageFile nt w d this imagePath =
     (let prompt = systemPrompt @ ascii ''\<newline>\<newline>Image analysis. Short answer with next actions.'' in
      if useOpenAI this then
        (case readFile d imagePath of
           Inl e \<Rightarrow> Inl e
         | Inr imageData \<Rightarrow>
             (case snd (callOpenAI nt
                         (chat_completions w (openaiApiKey this) (openaiModel this)
                            [(ascii ''user'', Parts [TextPart prompt, ImagePart imageData])])) of
                Inl e \<Rightarrow> Inl e
              | Inr text \<Rightarrow> Inr (text, now w)))
      else
        (case readFile d imagePath of
           Inl e \<Rightarrow> Inl e
         | Inr imageData \<Rightarrow>
             (case model this of
                None \<Rightarrow> Inl TypeError
              | Some handle \<Rightarrow>
                  (case generateContent w handle prompt [(imageData, ascii ''image/png'')] of
                     Inl e \<Rightarrow> Inl e
                   | Inr text \<Rightarrow> Inr (text, now w)))))"

section \<open>The context retrieval adapter\<close>















section \<open>Example worlds\<close>

text \<open>
  Concrete servers, worlds and disks on which the theorems below are run: a local server
  with one model; a world with no environment variable set, in which files are written
  and unlinked, Gemini answers, the transcription endpoint answers with a body that has
  no \<open>text\<close> field, and the chat endpoint and both search backends reject with an
  Error object; variants of it; and disks with one file.
\<close>

definition example_server :: ollama_server where
  "example_server =
     \<lparr>tags = (\<lambda>url. Some [ascii ''llama3.2'']),
      generate = (\<lambda>url model prompt. Inr (ascii ''Hello!''))\<rparr>"

definition example_world :: world where
  "example_world =
     \<lparr>env = (\<lambda>name. None),
      now = 1700000000000,
      writeFile_outcome = (\<lambda>path. Written),
      unlink_error = (\<lambda>path. None),
      base64_decode = (\<lambda>text. text),
      generateContent = (\<lambda>handle prompt media. Inr (ascii ''A supplier quote.'')),
      chat_completions = (\<lambda>key model messages. Inl (Rejected (ascii ''ECONNREFUSED''))),
      transcriptions = (\<lambda>key audio. Inr (JObj [(ascii ''language'', JStr (ascii ''en''))])),
      weaviate_graphql = (\<lambda>url key collection field concepts. Inl (Rejected (ascii ''ETIMEDOUT''))),
      kontext_vault_query = (\<lambda>key url query. Inl (Rejected (ascii ''401'')))\<rparr>"





definition null_body :: world where
  "null_body = example_world\<lparr>transcriptions := (\<lambda>key audio. Inr JNull)\<rparr>"







definition example_disk :: disk where
  "example_disk = (\<lambda>path. if path = ascii ''/tmp/shot.png'' then Some [137, 80, 78, 71] else None)"

definition audio_disk :: disk where
  "audio_disk = (\<lambda>path. if path = ascii ''/tmp/call.mp3'' then Some [73, 68, 51] else None)"

section \<open>Properties of JSON.parse\<close>

text \<open>
  No code unit that \<open>trim\<close> strips starts, continues or ends a value, so a text that
  parses still parses, to the same value, after \<open>trim\<close>.
\<close>

lemma ws_num_next: "isWhiteSpace c \<Longrightarrow> num_next ph c = None"
  by (cases ph) (auto simp: isWhiteSpace_def num_next_def is_digit_def)

lemma ws_hex: "isWhiteSpace c \<Longrightarrow> hex_digit c = None"
  by (auto simp: isWhiteSpace_def hex_digit_def)

lemma ws_escape: "isWhiteSpace c \<Longrightarrow> escape_char c = None"
  by (auto simp: isWhiteSpace_def escape_char_def)

lemma ws_start_value: "isWhiteSpace c \<Longrightarrow> start_value c st = None"
  by (auto simp: isWhiteSpace_def start_value_def is_digit_def)

lemma ws_lit: "isWhiteSpace c \<Longrightarrow> n < length (lit_text l) \<Longrightarrow> c \<noteq> lit_text l ! n"
  by (cases l) (auto simp: isWhiteSpace_def ascii_def nth_Cons' split: if_splits)

lemma ws_punct:
  "isWhiteSpace c \<Longrightarrow>
   c \<noteq> 34 \<and> c \<noteq> 92 \<and> c \<noteq> 93 \<and> c \<noteq> 125 \<and> c \<noteq> 44 \<and> c \<noteq> 58 \<and> c \<noteq> 117"
  by (auto simp: isWhiteSpace_def)

lemma ws_after_value: "isWhiteSpace c \<Longrightarrow> after_value q c = Some q' \<Longrightarrow> q' = q"
  by (cases "(q, c)" rule: after_value.cases)
     (auto simp: ws_punct split: if_splits list.splits frame.splits)

lemma ws_step_finish:
  assumes "isWhiteSpace c" "step q c = Some q'" "finish q' = Some v"
  shows "finish q = Some v"
proof (cases q)
  case (Pair m st)
  show ?thesis
  proof (cases m)
    case (InNumber ph buf)
    from assms(1) have "c \<noteq> 93" "c \<noteq> 125" "c \<noteq> 44"
      by (simp_all add: ws_punct)
    with InNumber assms Pair show ?thesis
      by (cases "(JNum buf, st)" rule: complete.cases)
         (auto simp: ws_num_next split: if_splits option.splits)
  next
    case (Literal l n)
    from assms(1) have "n < length (lit_text l) \<Longrightarrow> c \<noteq> lit_text l ! n"
      by (rule ws_lit)
    with Literal assms Pair show ?thesis
      by (auto split: if_splits)
  qed (use assms Pair in \<open>auto simp: ws_punct ws_start_value ws_hex ws_escape
        dest: ws_after_value split: if_splits option.splits list.splits frame.splits\<close>)
qed

lemma run_append:
  "run q (a @ b) = (case run q a of None \<Rightarrow> None | Some q' \<Rightarrow> run q' b)"
  by (induction a arbitrary: q) (auto split: option.splits)

lemma ws_step_start:
  "isWhiteSpace c \<Longrightarrow> step (Value, []) c = Some q \<Longrightarrow> q = (Value, [])"
  by (auto simp: ws_start_value split: if_splits)

lemma run_dropWhile_start:
  "run (Value, []) s = Some q \<Longrightarrow> run (Value, []) (dropWhile isWhiteSpace s) = Some q"
proof (induction s)
  case Nil
  then show ?case by simp
next
  case (Cons c s)
  show ?case
  proof (cases "isWhiteSpace c")
    case True
    from Cons.prems obtain q1 where q1: "step (Value, []) c = Some q1" "run q1 s = Some q"
      by (auto split: option.splits)
    with True have "q1 = (Value, [])" by (auto dest: ws_step_start)
    with q1 Cons.IH True show ?thesis by simp
  next
    case False
    with Cons.prems show ?thesis by simp
  qed
qed

lemma run_dropWhile_end:
  "run q0 s = Some q \<Longrightarrow> finish q = Some v \<Longrightarrow>
   \<exists>q'. run q0 (rev (dropWhile isWhiteSpace (rev s))) = Some q' \<and> finish q' = Some v"
proof (induction s arbitrary: q rule: rev_induct)
  case Nil
  then show ?case by simp
next
  case (snoc c s)
  show ?case
  proof (cases "isWhiteSpace c")
    case True
    from snoc.prems obtain q1 where q1: "run q0 s = Some q1" "step q1 c = Some q"
      by (auto simp: run_append split: option.splits)
    with True snoc.prems have "finish q1 = Some v" by (auto dest: ws_step_finish)
    with q1 snoc.IH True show ?thesis by simp
  next
    case False
    with snoc.prems show ?thesis by auto
  qed
qed

lemma JSON_parse_trim: "JSON_parse s = Some v \<Longrightarrow> JSON_parse (trim s) = Some v"
proof -
  assume "JSON_parse s = Some v"
  then obtain q where q: "run (Value, []) s = Some q" "finish q = Some v"
    by (auto simp: JSON_parse_def split: option.splits)
  from q(1) have "run (Value, []) (dropWhile isWhiteSpace s) = Some q"
    by (rule run_dropWhile_start)
  from run_dropWhile_end [OF this q(2)] show ?thesis
    by (auto simp: JSON_parse_def trim_def)
qed


lemmas js_eval =
  decode_body_def decode_chunk_def decode_line_def startsWith_def trim_def isWhiteSpace_def
  JSON_parse_def start_value_def json_ws_def is_digit_def num_next_def num_final_def
  hex_digit_def escape_char_def delta_content_def js_get_def nullish_def property_def
  own_property_def opt_get_def opt_index0_def truthy_def ascii_def

lemma JSON_parse_frame:
  \<open>JSON_parse (ascii ''{"choices":[{"delta":{"content":"Hi"}}]}'')
   = Some (JObj [(ascii ''choices'',
        JArr [JObj [(ascii ''delta'', JObj [(ascii ''content'', JStr (ascii ''Hi''))])]])])\<close>
  by (simp add: js_eval)

lemma JSON_parse_examples:
  \<open>JSON_parse (ascii '' [1, -0.5e+3 ,true,null , {"a" : "x"}, []] '')
   = Some (JArr [JNum (ascii ''1''), JNum (ascii ''-0.5e+3''), JBool True, JNull,
        JObj [(ascii ''a'', JStr (ascii ''x''))], JArr []])\<close>
  \<open>JSON_parse (ascii ''[DONE]'') = None\<close>
  \<open>JSON_parse (ascii ''{"a":1,}'') = None\<close>
  \<open>JSON_parse (ascii ''01'') = None\<close>
  \<open>JSON_parse (ascii ''[1 2]'') = None\<close>
  \<open>JSON_parse [] = None\<close>
  by (simp_all add: js_eval)

section \<open>Properties of the stream decoder\<close>

lemma split_newline_not_Nil: "split_newline s \<noteq> []"
  by (induction s) (auto split: list.splits)

lemma split_newline_append:
  "split_newline (a @ 10 # b) = split_newline a @ split_newline b"
proof (induction a)
  case Nil
  then show ?case by simp
next
  case (Cons c a)
  obtain l ls where "split_newline a = l # ls"
    using split_newline_not_Nil [of a] by (cases "split_newline a") auto
  with Cons show ?case by simp
qed

lemma decode_chunk_Nil: "decode_chunk nt st [] = st"
  by (simp add: decode_chunk_def trim_def)

lemma decode_chunk_append:
  "decode_chunk nt st (a @ 10 # b) = decode_chunk nt (decode_chunk nt st a) b"
  by (simp add: decode_chunk_def split_newline_append)

lemma decode_chunk_line_feed_first:
  "decode_chunk nt st (10 # b) = decode_chunk nt st b"
  using decode_chunk_append [of nt st "[]" b] by (simp add: decode_chunk_Nil)

lemma decode_chunk_aligned:
  assumes "c = [] \<or> last c = 10 \<or> (r \<noteq> [] \<and> hd r = 10)"
  shows "decode_chunk nt st (c @ r) = decode_chunk nt (decode_chunk nt st c) r"
proof -
  consider "c = []" | "c \<noteq> []" "last c = 10" | "r \<noteq> []" "hd r = 10"
    using assms by blast
  then show ?thesis
  proof cases
    case 1
    then show ?thesis by (simp add: decode_chunk_Nil)
  next
    case 2
    then have c: "c = butlast c @ [10]"
      by (metis append_butlast_last_id)
    have "decode_chunk nt st (c @ r) = decode_chunk nt st (butlast c @ 10 # r)"
      by (subst c) simp
    also have "\<dots> = decode_chunk nt (decode_chunk nt st (butlast c)) r"
      by (rule decode_chunk_append)
    also have "decode_chunk nt st (butlast c) = decode_chunk nt st c"
      using decode_chunk_append [of nt st "butlast c" "[]"] c
      by (simp add: decode_chunk_Nil)
    finally show ?thesis .
  next
    case 3
    then obtain r' where r: "r = 10 # r'"
      by (cases r) auto
    show ?thesis
      by (simp add: r decode_chunk_append decode_chunk_line_feed_first)
  qed
qed

lemma split_newline_one_line: "10 \<notin> set x \<Longrightarrow> split_newline x = [x]"
  by (induction x) auto

lemma decode_chunk_one_line:
  "10 \<notin> set x \<Longrightarrow>
   decode_chunk nt st x = (if trim x \<noteq> [] then decode_line nt st x else st)"
  by (simp add: decode_chunk_def split_newline_one_line)

lemma decode_line_no_data_line: "\<not> data_line x \<Longrightarrow> decode_line nt st x = st"
  by (simp add: decode_line_def data_line_def)

lemma startsWith_append: "startsWith x p \<Longrightarrow> startsWith (x @ y) p"
proof -
  assume "startsWith x p"
  then have t: "take (length p) x = p"
    by (simp only: startsWith_def)
  have "length (take (length p) x) = length p"
    by (rule arg_cong [OF t])
  then have "length p \<le> length x"
    by simp
  then have "take (length p) (x @ y) = take (length p) x"
    by simp
  with t show ?thesis
    by (simp only: startsWith_def)
qed

lemma data_line_append: "data_line x \<Longrightarrow> data_line (x @ y)"
  by (simp only: data_line_def startsWith_append)

lemma last_line_split:
  "c = rev (dropWhile (\<lambda>u. u \<noteq> 10) (rev c)) @ last_line c"
proof -
  have "rev (rev c)
      = rev (takeWhile (\<lambda>u. u \<noteq> 10) (rev c) @ dropWhile (\<lambda>u. u \<noteq> 10) (rev c))"
    by (simp only: takeWhile_dropWhile_id)
  also have "\<dots>
      = rev (dropWhile (\<lambda>u. u \<noteq> 10) (rev c)) @ rev (takeWhile (\<lambda>u. u \<noteq> 10) (rev c))"
    by (rule rev_append)
  finally show ?thesis
    by (simp only: rev_rev_ident last_line_def)
qed

lemma last_line_before:
  "rev (dropWhile (\<lambda>u. u \<noteq> 10) (rev c)) = [] \<or>
   last (rev (dropWhile (\<lambda>u. u \<noteq> 10) (rev c))) = 10"
proof (cases "dropWhile (\<lambda>u. u \<noteq> 10) (rev c) = []")
  case True
  then show ?thesis by simp
next
  case False
  then have "hd (dropWhile (\<lambda>u. u \<noteq> 10) (rev c)) = 10"
    using hd_dropWhile [of "\<lambda>u. u \<noteq> 10" "rev c"] by simp
  with False show ?thesis by (simp add: last_rev)
qed

lemma last_line_no_line_feed: "10 \<notin> set (last_line c)"
  using set_takeWhileD [of 10 "\<lambda>u. u \<noteq> 10" "rev c"] by (auto simp: last_line_def)

lemma first_line_split: "r = first_line r @ dropWhile (\<lambda>u. u \<noteq> 10) r"
  by (simp add: first_line_def)

lemma first_line_after:
  "dropWhile (\<lambda>u. u \<noteq> 10) r = [] \<or> hd (dropWhile (\<lambda>u. u \<noteq> 10) r) = 10"
  using hd_dropWhile [of "\<lambda>u. u \<noteq> 10" r] by auto

lemma first_line_no_line_feed: "10 \<notin> set (first_line r)"
  using set_takeWhileD [of 10 "\<lambda>u. u \<noteq> 10" r] by (auto simp: first_line_def)

lemma decode_chunk_before_rest:
  assumes "s = [] \<or> hd s = 10"
  shows "decode_chunk nt st (x @ s) = decode_chunk nt (decode_chunk nt st x) s"
proof (cases "s = []")
  case True
  then show ?thesis by (simp add: decode_chunk_Nil)
next
  case False
  with assms have "x = [] \<or> last x = 10 \<or> (s \<noteq> [] \<and> hd s = 10)" by simp
  then show ?thesis by (rule decode_chunk_aligned)
qed

lemma decode_chunk_cut_line:
  assumes "10 \<notin> set la" "10 \<notin> set lb"
    and "la = [] \<or> lb = [] \<or> (\<not> data_line (la @ lb) \<and> \<not> data_line lb)"
  shows "decode_chunk nt st (la @ lb) = decode_chunk nt (decode_chunk nt st la) lb"
proof -
  consider "la = []" | "lb = []" | "\<not> data_line (la @ lb)" "\<not> data_line lb"
    using assms(3) by blast
  then show ?thesis
  proof cases
    case 1
    then show ?thesis by (simp add: decode_chunk_Nil)
  next
    case 2
    then show ?thesis by (simp add: decode_chunk_Nil)
  next
    case 3
    from 3(1) have "\<not> data_line la"
      using data_line_append by blast
    with 3 assms(1,2) show ?thesis
      by (simp add: decode_chunk_one_line decode_line_no_data_line)
  qed
qed

lemma decode_chunk_cut_ok:
  assumes "cut_ok c r"
  shows "decode_chunk nt st (c @ r) = decode_chunk nt (decode_chunk nt st c) r"
proof -
  define p where "p = rev (dropWhile (\<lambda>u. u \<noteq> 10) (rev c))"
  define s where "s = dropWhile (\<lambda>u. u \<noteq> 10) r"
  define la where "la = last_line c"
  define lb where "lb = first_line r"
  have c: "c = p @ la"
    unfolding p_def la_def by (rule last_line_split)
  have "p = [] \<or> last p = 10"
    unfolding p_def by (rule last_line_before)
  then have p: "p = [] \<or> last p = 10 \<or> (y \<noteq> [] \<and> hd y = 10)" for y
    by blast
  have r: "r = lb @ s"
    unfolding s_def lb_def by (rule first_line_split)
  have s: "s = [] \<or> hd s = 10"
    unfolding s_def by (rule first_line_after)
  have la: "10 \<notin> set la" and lb: "10 \<notin> set lb"
    by (simp_all add: la_def lb_def last_line_no_line_feed first_line_no_line_feed)
  from assms have cut: "la = [] \<or> lb = [] \<or> (\<not> data_line (la @ lb) \<and> \<not> data_line lb)"
    by (simp add: cut_ok_def la_def lb_def)
  have "c @ r = p @ ((la @ lb) @ s)"
    using c r by simp
  then have "decode_chunk nt st (c @ r) = decode_chunk nt st (p @ ((la @ lb) @ s))"
    by (rule arg_cong)
  also have "\<dots> = decode_chunk nt (decode_chunk nt st p) ((la @ lb) @ s)"
    using p by (rule decode_chunk_aligned)
  also have "\<dots> = decode_chunk nt (decode_chunk nt (decode_chunk nt st p) (la @ lb)) s"
    using s by (rule decode_chunk_before_rest)
  also have "decode_chunk nt (decode_chunk nt st p) (la @ lb)
      = decode_chunk nt (decode_chunk nt (decode_chunk nt st p) la) lb"
    using la lb cut by (rule decode_chunk_cut_line)
  also have "decode_chunk nt (decode_chunk nt st p) la = decode_chunk nt st (p @ la)"
    using decode_chunk_aligned [OF p, of nt st la] by simp
  also have "decode_chunk nt (decode_chunk nt (decode_chunk nt st (p @ la)) lb) s
      = decode_chunk nt (decode_chunk nt st (p @ la)) (lb @ s)"
    using decode_chunk_before_rest [OF s, of nt "decode_chunk nt st (p @ la)" lb] by simp
  finally show ?thesis
    using c r by simp
qed

lemma foldl_decode_chunk_cut_ok:
  "no_data_line_cut chunks \<Longrightarrow>
   foldl (decode_chunk nt) st chunks = decode_chunk nt st (concat chunks)"
proof (induction chunks arbitrary: st)
  case Nil
  then show ?case by (simp add: decode_chunk_Nil)
next
  case (Cons c cs)
  then have cut: "cut_ok c (concat cs)" and rest: "no_data_line_cut cs"
    by simp_all
  from Cons.IH [OF rest] decode_chunk_cut_ok [OF cut, of nt st] show ?case by simp
qed

lemma decode_line_DONE: "decode_line nt st (ascii ''data: [DONE]'') = st"
  by (simp add: decode_line_def startsWith_def ascii_def)

lemma decode_chunk_DONE: "decode_chunk nt st (ascii ''data: [DONE]'') = st"
  by (simp add: decode_chunk_def decode_line_def startsWith_def trim_def isWhiteSpace_def ascii_def)

lemma decode_chunk_skip_DONE:
  "decode_chunk nt st (ascii ''data: [DONE]'' @ 10 # b) = decode_chunk nt st b"
  by (simp add: decode_chunk_append decode_chunk_DONE)

lemma decode_chunk_skip_DONE_inner:
  "decode_chunk nt st (a @ 10 # ascii ''data: [DONE]'' @ 10 # b) = decode_chunk nt st (a @ 10 # b)"
  by (simp add: decode_chunk_append decode_chunk_DONE)

text \<open>
  The statement of C1 in the specification, that nothing after a \<open>data: [DONE]\<close> line
  contributes text or triggers the callback, fails on the code: the line is passed over
  with \<open>continue\<close> and the loop goes on. A body with a data line after the sentinel
  yields that line's text and one call of the callback.
\<close>

theorem text_after_DONE_is_decoded:
  \<open>decode_body id
     [ascii ''data: [DONE]\<newline>data: {"choices":[{"delta":{"content":"Hi"}}]}\<newline>'']
   = \<lparr>fullContent = ascii ''Hi'', onChunk_calls = [JStr (ascii ''Hi'')]\<rparr>\<close>
  by (simp add: js_eval)

text \<open>
  Claim C1, amended. A \<open>data: [DONE]\<close> line is skipped: it contributes no text and
  triggers no call of the callback, and decoding goes on. The accumulated text and the
  calls of the callback are those of the body without the line, whether the line stands
  inside a read, at its start, at its end or alone in it, and whatever is read before
  and after.
\<close>

theorem DONE_line_is_skipped:
  "decode_body nt (before @ [a @ [10] @ ascii ''data: [DONE]'' @ [10] @ b] @ after)
     = decode_body nt (before @ [a @ [10] @ b] @ after) \<and>
   decode_body nt (before @ [ascii ''data: [DONE]'' @ [10] @ b] @ after)
     = decode_body nt (before @ [b] @ after) \<and>
   decode_body nt (before @ [a @ [10] @ ascii ''data: [DONE]''] @ after)
     = decode_body nt (before @ [a] @ after) \<and>
   decode_body nt (before @ [ascii ''data: [DONE]''] @ after)
     = decode_body nt (before @ after)"
  using decode_chunk_skip_DONE_inner [of nt _ a b] decode_chunk_skip_DONE [of nt _ b]
    decode_chunk_append [of nt _ a "ascii ''data: [DONE]''"] decode_chunk_DONE [of nt]
  by (simp add: decode_body_def)

text \<open>
  The statement of C2 in the specification fails on the code, which decodes each read on
  its own and keeps no partial line. A read boundary inside the \<open>data: \<close> prefix leaves
  the JSON frame whole in the second read and loses its text; a boundary between the
  code unit \<open>x\<close> and a following \<open>data: \<close> turns a line that is no data line into one.
\<close>

theorem read_boundary_inside_a_line_changes_text:
  \<open>fullContent (decode_body id
      [ascii ''da'', ascii ''ta: {"choices":[{"delta":{"content":"Hi"}}]}\<newline>'']) = [] \<and>
   fullContent (decode_body id
      [ascii ''data: {"choices":[{"delta":{"content":"Hi"}}]}\<newline>'']) = ascii ''Hi'' \<and>
   fullContent (decode_body id
      [ascii ''x'', ascii ''data: {"choices":[{"delta":{"content":"Hi"}}]}\<newline>'']) = ascii ''Hi'' \<and>
   fullContent (decode_body id
      [ascii ''xdata: {"choices":[{"delta":{"content":"Hi"}}]}\<newline>'']) = []\<close>
  by (simp add: js_eval)

text \<open>
  Claim C2, amended. For a body in which no read boundary cuts a data line (every
  boundary is at a line feed, or inside a line that is no \<open>data: \<close> line and not
  directly before \<open>data: \<close>), decoding the reads yields the same accumulated text, and
  the same calls of the callback, as decoding the entire body in a single read. The
  boundaries left out are those inside a \<open>data: \<close> line and those directly before
  \<open>data: \<close> in the middle of a line.
\<close>

theorem reads_that_cut_no_data_line_decode_as_one:
  "no_data_line_cut chunks \<Longrightarrow> decode_body nt chunks = decode_body nt [concat chunks]"
  by (simp add: decode_body_def foldl_decode_chunk_cut_ok)

text \<open>
  The theorem on three reads: the first ends inside a comment line, the second ends
  with a data line but without its line feed, which begins the third.
\<close>

theorem reads_that_cut_no_data_line_decode_as_one_witness:
  \<open>decode_body id
     [ascii '': keep'',
      ascii ''-alive\<newline>data: {"choices":[{"delta":{"content":"Hi"}}]}'',
      ascii ''\<newline>\<newline>data: [DONE]\<newline>'']
   = decode_body id
     [ascii '': keep-alive\<newline>data: {"choices":[{"delta":{"content":"Hi"}}]}\<newline>\<newline>data: [DONE]\<newline>''] \<and>
   fullContent (decode_body id
     [ascii '': keep'',
      ascii ''-alive\<newline>data: {"choices":[{"delta":{"content":"Hi"}}]}'',
      ascii ''\<newline>\<newline>data: [DONE]\<newline>'']) = ascii ''Hi''\<close>
proof -
  have cut: \<open>no_data_line_cut
     [ascii '': keep'',
      ascii ''-alive\<newline>data: {"choices":[{"delta":{"content":"Hi"}}]}'',
      ascii ''\<newline>\<newline>data: [DONE]\<newline>'']\<close>
    by (simp add: cut_ok_def last_line_def first_line_def data_line_def startsWith_def ascii_def)
  have whole: \<open>fullContent (decode_body id
     [ascii '': keep-alive\<newline>data: {"choices":[{"delta":{"content":"Hi"}}]}\<newline>\<newline>data: [DONE]\<newline>'']) = ascii ''Hi''\<close>
    by (simp add: js_eval)
  from whole reads_that_cut_no_data_line_decode_as_one [OF cut, of id]
  show ?thesis by (simp add: ascii_def)
qed

section \<open>Properties of cleanJsonResponse\<close>

lemma includes_str_infix: "includes_str (a @ p @ b) p"
proof (induction a)
  case Nil
  have "startsWith (p @ b) p" by (simp add: startsWith_def)
  then show ?case by (cases "p @ b") auto
next
  case (Cons x a)
  then show ?case by simp
qed

lemma startsWith_includes:
  "startsWith text (p @ r) \<Longrightarrow> includes_str text p"
proof -
  assume "startsWith text (p @ r)"
  then have "text = [] @ p @ (r @ drop (length (p @ r)) text)"
    by (metis append_Nil append_assoc append_take_drop_id startsWith_def)
  then show ?thesis by (metis includes_str_infix)
qed

lemma endsWith_includes:
  "endsWith text (r @ p) \<Longrightarrow> includes_str text p"
proof -
  assume "endsWith text (r @ p)"
  then have "text = (take (length text - length (r @ p)) text @ r) @ p @ []"
    by (metis append_Nil2 append_assoc append_take_drop_id endsWith_def)
  then show ?thesis by (metis includes_str_infix)
qed

lemma no_fence_strip_opening:
  "\<not> includes_str text (ascii ''```'') \<Longrightarrow> strip_opening_fence text = text"
  using startsWith_includes [of "text" "ascii ''```''" "ascii ''json\<newline>''"]
    startsWith_includes [of "text" "ascii ''```''" "ascii ''\<newline>''"]
  by (auto simp: strip_opening_fence_def ascii_def)

lemma no_fence_strip_closing:
  "\<not> includes_str text (ascii ''```'') \<Longrightarrow> strip_closing_fence text = text"
  using endsWith_includes [of "text" "ascii ''\<newline>''" "ascii ''```''"]
  by (auto simp: strip_closing_fence_def ascii_def)

lemma clean_json_fence:
  "cleanJsonResponse (ascii ''```json\<newline>'' @ j @ ascii ''\<newline>```'') = trim j"
  by (simp add: cleanJsonResponse_def strip_opening_fence_def strip_closing_fence_def
      startsWith_def endsWith_def ascii_def)

lemma clean_plain_fence:
  "cleanJsonResponse (ascii ''```\<newline>'' @ j @ ascii ''\<newline>```'') = trim j"
  by (simp add: cleanJsonResponse_def strip_opening_fence_def strip_closing_fence_def
      startsWith_def endsWith_def ascii_def)

text \<open>
  The statement of C6 in the specification fails on the code for fences that the two
  regular expressions do not match: they are anchored at the start and at the end of the
  text and know the info string \<open>json\<close> only. When a line feed follows the closing
  fence, the closing fence stays and the result does not parse; when the info string is
  \<open>JSON\<close>, the opening fence stays and the result does not parse.
\<close>

theorem fence_not_recognised_is_not_cleaned:
  \<open>JSON_parse (ascii ''{"solution": {}}'') = Some (JObj [(ascii ''solution'', JObj [])]) \<and>
   cleanJsonResponse (ascii ''```json\<newline>{"solution": {}}\<newline>```\<newline>'')
     = ascii ''{"solution": {}}\<newline>```'' \<and>
   JSON_parse (cleanJsonResponse (ascii ''```json\<newline>{"solution": {}}\<newline>```\<newline>'')) = None \<and>
   cleanJsonResponse (ascii ''```JSON\<newline>{"solution": {}}\<newline>```'')
     = ascii ''```JSON\<newline>{"solution": {}}'' \<and>
   JSON_parse (cleanJsonResponse (ascii ''```JSON\<newline>{"solution": {}}\<newline>```'')) = None\<close>
  by (simp add: js_eval cleanJsonResponse_def strip_opening_fence_def strip_closing_fence_def
      endsWith_def)

text \<open>
  Claim C6, amended. For every well-formed JSON text \<open>j\<close>, cleaning the text made of
  the opening fence \<open>```json\<close> or \<open>```\<close>, a line feed, \<open>j\<close>, a line feed and the
  closing fence \<open>```\<close>, with nothing before the opening fence and nothing after the
  closing one, yields a string that parses, to the value of \<open>j\<close>; and for every input
  that contains no \<open>```\<close>, cleaning returns exactly the trimmed input.
\<close>

theorem cleanJsonResponse_exact_fence:
  "(JSON_parse j = Some v \<longrightarrow>
      JSON_parse (cleanJsonResponse (ascii ''```json\<newline>'' @ j @ ascii ''\<newline>```'')) = Some v \<and>
      JSON_parse (cleanJsonResponse (ascii ''```\<newline>'' @ j @ ascii ''\<newline>```'')) = Some v) \<and>
   (\<not> includes_str text (ascii ''```'') \<longrightarrow> cleanJsonResponse text = trim text)"
proof (intro conjI impI)
  assume "JSON_parse j = Some v"
  then show "JSON_parse (cleanJsonResponse (ascii ''```json\<newline>'' @ j @ ascii ''\<newline>```'')) = Some v"
    by (simp add: clean_json_fence JSON_parse_trim)
next
  assume "JSON_parse j = Some v"
  then show "JSON_parse (cleanJsonResponse (ascii ''```\<newline>'' @ j @ ascii ''\<newline>```'')) = Some v"
    by (simp add: clean_plain_fence JSON_parse_trim)
next
  assume "\<not> includes_str text (ascii ''```'')"
  then show "cleanJsonResponse text = trim text"
    by (simp add: cleanJsonResponse_def no_fence_strip_opening no_fence_strip_closing)
qed

text \<open>The theorem on a fenced object with blanks around it, and on a text with no fence.\<close>

theorem cleanJsonResponse_exact_fence_witness:
  \<open>JSON_parse (cleanJsonResponse (ascii ''```json\<newline> {"a": [1, 2]} \<newline>```''))
     = Some (JObj [(ascii ''a'', JArr [JNum (ascii ''1''), JNum (ascii ''2'')])]) \<and>
   cleanJsonResponse (ascii ''  {"a": 1}\<newline>'') = ascii ''{"a": 1}''\<close>
proof -
  have p: \<open>JSON_parse (ascii '' {"a": [1, 2]} '')
     = Some (JObj [(ascii ''a'', JArr [JNum (ascii ''1''), JNum (ascii ''2'')])])\<close>
    by (simp add: js_eval)
  have n: \<open>\<not> includes_str (ascii ''  {"a": 1}\<newline>'') (ascii ''```'')\<close>
    by (simp add: startsWith_def ascii_def)
  have t: \<open>trim (ascii ''  {"a": 1}\<newline>'') = ascii ''{"a": 1}''\<close>
    by (simp add: trim_def isWhiteSpace_def ascii_def)
  from p n t
    cleanJsonResponse_exact_fence [of \<open>ascii '' {"a": [1, 2]} ''\<close>
      \<open>JObj [(ascii ''a'', JArr [JNum (ascii ''1''), JNum (ascii ''2'')])]\<close>
      \<open>ascii ''  {"a": 1}\<newline>''\<close>]
  show ?thesis by (simp add: ascii_def)
qed


section \<open>Properties of the provider state\<close>

lemma initializeOllamaModel_flags:
  "useOllama (initializeOllamaModel server this) = useOllama this \<and>
   useOpenAI (initializeOllamaModel server this) = useOpenAI this \<and>
   openaiModel (initializeOllamaModel server this) = openaiModel this \<and>
   openaiApiKey (initializeOllamaModel server this) = openaiApiKey this \<and>
   model (initializeOllamaModel server this) = model this"
  by (simp add: initializeOllamaModel_def Let_def split: list.splits sum.splits)

lemma switchToOllama_flags:
  "useOllama (switchToOllama server this m u) \<and>
   useOpenAI (switchToOllama server this m u) = useOpenAI this \<and>
   openaiModel (switchToOllama server this m u) = openaiModel this \<and>
   model (switchToOllama server this m u) = model this"
  by (simp add: switchToOllama_def Let_def initializeOllamaModel_flags split: option.splits)

text \<open>
  Claim C3. The claim: in every reachable state \<open>useOpenAI\<close> and \<open>useOllama\<close> are
  not both set, and \<open>getCurrentProvider\<close> reports the provider of the most recent
  switch. The code: \<open>switchToOllama\<close> sets \<open>useOllama\<close> and leaves \<open>useOpenAI\<close> as it
  is (\<open>switchToOpenAI\<close> and \<open>switchToGemini\<close> clear the other flags). After
  \<open>switchToOpenAI\<close> and then \<open>switchToOllama\<close>, with any arguments, both flags are set
  and \<open>getCurrentProvider\<close> still answers \<open>openai\<close>.
\<close>

theorem switchToOllama_leaves_useOpenAI_set:
  "useOllama (switchToOllama server (switchToOpenAI this apiKey m) m' u) \<and>
   useOpenAI (switchToOllama server (switchToOpenAI this apiKey m) m' u) \<and>
   getCurrentProvider (switchToOllama server (switchToOpenAI this apiKey m) m' u) = OpenAI"
  by (simp add: switchToOllama_flags getCurrentProvider_def switchToOpenAI_def)

text \<open>
  Claim C4. The claim: switching to another provider and back with the original
  parameters restores what \<open>getCurrentProvider\<close> and \<open>getCurrentModel\<close> return. The
  code: an instance constructed for Ollama with the model \<open>llama3.2\<close>, switched to
  OpenAI and back to Ollama with the same model and URL, reports \<open>openai\<close> and
  \<open>gpt-4o\<close>, where it reported \<open>ollama\<close> and \<open>llama3.2\<close> before.
\<close>

theorem ollama_round_trip_through_openai_lost:
  "(case constructor apiKey True (Some (ascii ''llama3.2'')) url False None of
      Inl e \<Rightarrow> False
    | Inr this \<Rightarrow>
        getCurrentProvider this = Ollama \<and>
        getCurrentModel this = ascii ''llama3.2'' \<and>
        getCurrentProvider
          (switchToOllama server (switchToOpenAI this (ascii ''sk-test'') None)
             (Some (ascii ''llama3.2'')) url) = OpenAI \<and>
        getCurrentModel
          (switchToOllama server (switchToOpenAI this (ascii ''sk-test'') None)
             (Some (ascii ''llama3.2'')) url) = ascii ''gpt-4o'')"
  by (simp add: constructor_def Let_def getCurrentProvider_def getCurrentModel_def
      switchToOllama_flags switchToOpenAI_def or_default_def ascii_def)

lemma constructor_openai_key:
  "constructor k uo om ou uai m = Inr new \<Longrightarrow> useOpenAI new \<Longrightarrow> openaiApiKey new \<noteq> []"
  by (cases uai) (auto simp: constructor_def Let_def split: if_splits)

text \<open>
  Claim C9. \<open>switchToOpenAI\<close> installs the OpenAI provider for every \<open>apiKey\<close>, the
  empty string included, and stores the key as it is, with no validation; the
  constructor with \<open>useOpenAI\<close> and an absent or empty key fails, and every instance
  it constructs with \<open>useOpenAI\<close> set has a key that is not empty. So after
  \<open>switchToOpenAI('')\<close> the instance is in an OpenAI state that no construction
  yields.
\<close>

theorem switchToOpenAI_accepts_every_key:
  "useOpenAI (switchToOpenAI this apiKey m) \<and>
   \<not> useOllama (switchToOpenAI this apiKey m) \<and>
   openaiApiKey (switchToOpenAI this apiKey m) = apiKey \<and>
   getCurrentProvider (switchToOpenAI this apiKey m) = OpenAI \<and>
   openaiApiKey (switchToOpenAI this [] m) = [] \<and>
   constructor None uo om ou True m =
     Inl (Error (ascii ''OpenAI API key is required when useOpenAI is true'')) \<and>
   constructor (Some []) uo om ou True m =
     Inl (Error (ascii ''OpenAI API key is required when useOpenAI is true'')) \<and>
   (constructor k uo om ou uai m = Inr new \<and> useOpenAI new \<longrightarrow> openaiApiKey new \<noteq> [])"
proof -
  have "constructor k uo om ou uai m = Inr new \<and> useOpenAI new \<longrightarrow> openaiApiKey new \<noteq> []"
    using constructor_openai_key by blast
  then show ?thesis
    by (simp add: switchToOpenAI_def getCurrentProvider_def constructor_def Let_def or_default_def)
qed

text \<open>
  The theorem on an instance constructed for OpenAI with a key: the construction
  succeeds with that key, and \<open>switchToOpenAI('')\<close> then leaves it with the empty key.
\<close>

theorem switchToOpenAI_accepts_every_key_witness:
  "(case constructor (Some (ascii ''sk-test'')) False None None True None of
      Inl e \<Rightarrow> False
    | Inr new \<Rightarrow>
        useOpenAI new \<and> openaiApiKey new = ascii ''sk-test'' \<and> openaiApiKey new \<noteq> [] \<and>
        getCurrentProvider (switchToOpenAI new [] None) = OpenAI \<and>
        openaiApiKey (switchToOpenAI new [] None) = [])"
proof -
  let ?new = "initial\<lparr>useOllama := False, useOpenAI := True,
                 openaiApiKey := ascii ''sk-test'', openaiModel := ascii ''gpt-4o''\<rparr>"
  have c: "constructor (Some (ascii ''sk-test'')) False None None True None = Inr ?new"
    by (simp add: constructor_def Let_def or_default_def ascii_def)
  have u: "useOpenAI ?new" by simp
  from c u
    switchToOpenAI_accepts_every_key [of ?new "[]" None False None None "Some (ascii ''sk-test'')"
      True ?new]
  show ?thesis by simp
qed

section \<open>Properties of analyzeImageFile\<close>

text \<open>
  The statement of C5 in the specification, that \<open>analyzeImageFile\<close> fails with an
  unsupported-operation error whenever Ollama is the active provider, fails on the code:
  the code has no such error, and with \<open>useOpenAI\<close> unset it sends the image to
  Gemini. An instance constructed for Gemini and switched to Ollama reports \<open>ollama\<close>
  and returns Gemini's answer for the image.
\<close>

theorem analyzeImageFile_ollama_reaches_gemini:
  "(case constructor (Some (ascii ''g-key'')) False None None False None of
      Inl e \<Rightarrow> False
    | Inr this \<Rightarrow>
        getCurrentProvider (switchToOllama example_server this (Some (ascii ''llava'')) None) = Ollama \<and>
        analyzeImageFile id example_world example_disk
          (switchToOllama example_server this (Some (ascii ''llava'')) None) (ascii ''/tmp/shot.png'')
          = Inr (ascii ''A supplier quote.'', 1700000000000))"
  by (simp add: constructor_def Let_def falsy_def switchToOllama_def getCurrentProvider_def
      analyzeImageFile_def readFile_def example_disk_def example_world_def initial_def ascii_def)

text \<open>
  Claim C5, amended. Whenever Ollama is the active provider, \<open>analyzeImageFile\<close> takes
  the Gemini path and never asks the local server: it fails with the error of the read
  when the image cannot be read, otherwise with a TypeError when the instance holds no
  Gemini model handle, and otherwise it returns what Gemini's \<open>generateContent\<close>
  returns for the image, its text with the timestamp or its error.
\<close>

theorem analyzeImageFile_under_ollama:
  "getCurrentProvider this = Ollama \<Longrightarrow>
   analyzeImageFile nt w d this imagePath =
     (case readFile d imagePath of
        Inl e \<Rightarrow> Inl e
      | Inr imageData \<Rightarrow>
          (case model this of
             None \<Rightarrow> Inl TypeError
           | Some handle \<Rightarrow>
               (case generateContent w handle
                       (systemPrompt @ ascii ''\<newline>\<newline>Image analysis. Short answer with next actions.'')
                       [(imageData, ascii ''image/png'')] of
                  Inl e \<Rightarrow> Inl e
                | Inr text \<Rightarrow> Inr (text, now w))))"
  by (simp add: getCurrentProvider_def analyzeImageFile_def Let_def split: if_splits)

text \<open>
  The theorem on an instance constructed for Ollama, which holds no Gemini handle: the
  image is read and the call fails with a TypeError.
\<close>

theorem analyzeImageFile_under_ollama_witness:
  "(case constructor None True (Some (ascii ''llava'')) None False None of
      Inl e \<Rightarrow> False
    | Inr this \<Rightarrow>
        getCurrentProvider this = Ollama \<and>
        analyzeImageFile id example_world example_disk this (ascii ''/tmp/shot.png'') = Inl TypeError)"
proof -
  let ?h = "initial\<lparr>useOllama := True, useOpenAI := False,
                 ollamaUrl := ascii ''http://localhost:11434'', ollamaModel := ascii ''llava''\<rparr>"
  have c: "constructor None True (Some (ascii ''llava'')) None False None = Inr ?h"
    by (simp add: constructor_def Let_def or_default_def ascii_def)
  have p: "getCurrentProvider ?h = Ollama"
    by (simp add: getCurrentProvider_def)
  have "analyzeImageFile id example_world example_disk ?h (ascii ''/tmp/shot.png'') = Inl TypeError"
    using analyzeImageFile_under_ollama [OF p, of id example_world example_disk "ascii ''/tmp/shot.png''"]
    by (simp add: readFile_def example_disk_def initial_def)
  with c p show ?thesis by simp
qed

section \<open>Properties of the context retrieval adapter\<close>








section \<open>Properties of the transcription adapter\<close>







text \<open>
  The statement of C10 in the specification, that a successful response without a
  \<open>text\<close> field gives the empty string and no error, fails on the code for the body
  \<open>null\<close>: it has no \<open>text\<close> field, the read \<open>response.data.text\<close> throws, and the
  \<open>catch\<close> rethrows it as \<open>Failed to transcribe audio\<close>.
\<close>

theorem whisper_null_body_raises:
  "transcribeAudioWithWhisper id null_body audio_disk initial (ascii ''/tmp/call.mp3'')
     = Inl (Error (ascii ''Failed to transcribe audio''))"
  by (simp add: transcribeAudioWithWhisper_def readFile_def audio_disk_def null_body_def
      example_world_def js_get_def nullish_def rethrow_def)

text \<open>
  Claim C10, amended. If the transcription backend answers successfully with a body
  that is neither \<open>null\<close> nor \<open>undefined\<close> and has no \<open>text\<close> field (an object none
  of whose members is named \<open>text\<close>, or an array, a string, a number or a boolean),
  \<open>transcribeAudioWithWhisper\<close> returns the empty string and does not raise. On a
  \<open>null\<close> body it raises.
\<close>

theorem whisper_without_text_field_gives_empty_string:
  assumes "readFile d audioPath = Inr audio"
    and "transcriptions w (openaiApiKey this) audio = Inr data"
    and "data \<noteq> JNull" and "data \<noteq> JUndefined"
    and "\<forall>ms. data = JObj ms \<longrightarrow> ascii ''text'' \<notin> fst ` set ms"
  shows "transcribeAudioWithWhisper nt w d this audioPath = Inr (JStr [])"
proof -
  have "property data (ascii ''text'') = JUndefined"
  proof (cases data)
    case (JObj ms)
    with assms(5) have "ascii ''text'' \<notin> fst ` set (rev ms)" by simp
    then have "map_of (rev ms) (ascii ''text'') = None"
      by (simp add: map_of_eq_None_iff)
    with JObj show ?thesis by (simp add: property_def own_property_def)
  qed (simp_all add: property_def)
  with assms show ?thesis
    by (simp add: transcribeAudioWithWhisper_def js_get_def nullish_def truthy_def)
qed

text \<open>The theorem on a body with a \<open>language\<close> field only.\<close>

theorem whisper_without_text_field_gives_empty_string_witness:
  "transcribeAudioWithWhisper id example_world audio_disk initial (ascii ''/tmp/call.mp3'')
     = Inr (JStr [])"
proof -
  have a: "readFile audio_disk (ascii ''/tmp/call.mp3'') = Inr [73, 68, 51]"
    by (simp add: readFile_def audio_disk_def)
  have b: "transcriptions example_world (openaiApiKey initial) [73, 68, 51]
             = Inr (JObj [(ascii ''language'', JStr (ascii ''en''))])"
    by (simp add: example_world_def)
  have c: "\<forall>ms. JObj [(ascii ''language'', JStr (ascii ''en''))] = JObj ms
             \<longrightarrow> ascii ''text'' \<notin> fst ` set ms"
    by (auto simp: ascii_def)
  show ?thesis
    by (rule whisper_without_text_field_gives_empty_string [OF a b _ _ c]) simp_all
qed

end
